theory Spec2Isabelle
  imports Complex_Main
begin

section \<open>JavaScript numbers\<close>

text \<open>
  Every numeric field of the program has the TypeScript type \<open>number\<close>. A \<open>number\<close> is
  a finite value, one of the two infinities, or NaN, and the program branches on all of
  them (\<open>isNaN\<close>, the \<open>Infinity\<close> literal, \<open>x || 0\<close>). The type below keeps these four
  shapes. Finite values are exact rationals: the rounding and the overflow of IEEE
  doubles are not modelled, and the negative zero is identified with zero (the program
  never divides by a value that can be zero: every divisor is the constant 100 or is
  guarded by \<open>> 0\<close>).
\<close>

datatype jsnum = Fin rat | PInf | NInf | NaN

fun js_neg :: "jsnum \<Rightarrow> jsnum" where
  "js_neg (Fin a) = Fin (- a)"
| "js_neg PInf = NInf"
| "js_neg NInf = PInf"
| "js_neg NaN = NaN"

text \<open>\<open>a + b\<close>: NaN is contagious and the two infinities do not cancel.\<close>

fun js_add :: "jsnum \<Rightarrow> jsnum \<Rightarrow> jsnum" where
  "js_add (Fin a) (Fin b) = Fin (a + b)"
| "js_add (Fin a) PInf = PInf"
| "js_add (Fin a) NInf = NInf"
| "js_add PInf (Fin b) = PInf"
| "js_add PInf PInf = PInf"
| "js_add PInf NInf = NaN"
| "js_add NInf (Fin b) = NInf"
| "js_add NInf NInf = NInf"
| "js_add NInf PInf = NaN"
| "js_add NaN y = NaN"
| "js_add x NaN = NaN"

definition js_sub :: "jsnum \<Rightarrow> jsnum \<Rightarrow> jsnum" where
  "js_sub x y = js_add x (js_neg y)"

text \<open>\<open>a * b\<close>: an infinity times zero is NaN, otherwise the signs multiply.\<close>

fun js_mul :: "jsnum \<Rightarrow> jsnum \<Rightarrow> jsnum" where
  "js_mul (Fin a) (Fin b) = Fin (a * b)"
| "js_mul (Fin a) PInf = (if a = 0 then NaN else if 0 < a then PInf else NInf)"
| "js_mul (Fin a) NInf = (if a = 0 then NaN else if 0 < a then NInf else PInf)"
| "js_mul PInf (Fin b) = (if b = 0 then NaN else if 0 < b then PInf else NInf)"
| "js_mul NInf (Fin b) = (if b = 0 then NaN else if 0 < b then NInf else PInf)"
| "js_mul PInf PInf = PInf"
| "js_mul PInf NInf = NInf"
| "js_mul NInf PInf = NInf"
| "js_mul NInf NInf = PInf"
| "js_mul NaN y = NaN"
| "js_mul x NaN = NaN"

text \<open>
  \<open>a / b\<close>. A zero divisor is read as the positive zero; no division of the program
  reaches that case.
\<close>

fun js_div :: "jsnum \<Rightarrow> jsnum \<Rightarrow> jsnum" where
  "js_div (Fin a) (Fin b) =
     (if b = 0 then (if a = 0 then NaN else if 0 < a then PInf else NInf)
      else Fin (a / b))"
| "js_div (Fin a) PInf = Fin 0"
| "js_div (Fin a) NInf = Fin 0"
| "js_div PInf (Fin b) = (if 0 \<le> b then PInf else NInf)"
| "js_div NInf (Fin b) = (if 0 \<le> b then NInf else PInf)"
| "js_div PInf PInf = NaN"
| "js_div PInf NInf = NaN"
| "js_div NInf PInf = NaN"
| "js_div NInf NInf = NaN"
| "js_div NaN y = NaN"
| "js_div x NaN = NaN"

text \<open>\<open>a > b\<close>: false as soon as one side is NaN.\<close>

fun js_gt :: "jsnum \<Rightarrow> jsnum \<Rightarrow> bool" where
  "js_gt (Fin a) (Fin b) = (b < a)"
| "js_gt (Fin a) PInf = False"
| "js_gt (Fin a) NInf = True"
| "js_gt PInf (Fin b) = True"
| "js_gt PInf PInf = False"
| "js_gt PInf NInf = True"
| "js_gt NInf y = False"
| "js_gt NaN y = False"
| "js_gt x NaN = False"

text \<open>\<open>a <= b\<close>, used to state properties only: also false on NaN.\<close>

definition js_le :: "jsnum \<Rightarrow> jsnum \<Rightarrow> bool" where
  "js_le x y = (x \<noteq> NaN \<and> y \<noteq> NaN \<and> \<not> js_gt x y)"

definition js_isNaN :: "jsnum \<Rightarrow> bool" where
  "js_isNaN x = (x = NaN)"

definition is_finite :: "jsnum \<Rightarrow> bool" where
  "is_finite x = (case x of Fin a \<Rightarrow> True | _ \<Rightarrow> False)"

text \<open>\<open>Math.ceil\<close> and \<open>Math.max\<close> of two arguments.\<close>

fun js_ceil :: "jsnum \<Rightarrow> jsnum" where
  "js_ceil (Fin a) = Fin (of_int \<lceil>a\<rceil>)"
| "js_ceil x = x"

definition js_max :: "jsnum \<Rightarrow> jsnum \<Rightarrow> jsnum" where
  "js_max x y = (if x = NaN \<or> y = NaN then NaN else if js_gt x y then x else y)"

text \<open>\<open>x || y\<close> on numbers: zero and NaN are the falsy numbers.\<close>

definition js_truthy :: "jsnum \<Rightarrow> bool" where
  "js_truthy x = (x \<noteq> NaN \<and> x \<noteq> Fin 0)"

definition js_or :: "jsnum \<Rightarrow> jsnum \<Rightarrow> jsnum" where
  "js_or x y = (if js_truthy x then x else y)"

section \<open>Data model (the types module)\<close>

record CostItem =
  ci_id :: string
  ci_name :: string
  amount :: jsnum

record MaterialItem =
  mi_id :: string
  mi_name :: string
  cost :: jsnum
  qtyPerUnit :: jsnum
  bufferUnits :: jsnum
  unitCost :: jsnum
  mi_notes :: string

record SalesScenario =
  sc_id :: string
  sc_name :: string
  discountPercent :: jsnum
  commissionPercent :: jsnum
  description :: string

text \<open>\<open>interface ScenarioResult extends SalesScenario\<close>.\<close>

record ScenarioResult = SalesScenario +
  netRevenue :: jsnum
  grossMargin :: jsnum
  profit :: jsnum
  breakEvenUnits :: jsnum
  isProfitable :: bool
  roi :: jsnum

record ScenarioConfig =
  cfg_id :: string
  cfg_discountPercent :: jsnum

record FinancialState =
  devCosts :: "CostItem list"
  amortizationQty :: jsnum
  batchSize :: jsnum
  wasteCount :: jsnum
  materials :: "MaterialItem list"
  publicPrice :: jsnum
  fixedMonthlyExpenses :: jsnum
  designerRoyaltyPercent :: jsnum
  customScenarios :: "ScenarioConfig list"

section \<open>Material costing (the App component)\<close>

text \<open>
  \<open>recalculateMaterials\<close> maps an arrow function over the list; \<open>recalculateItem\<close> is
  that function. Both \<open>typeof\<close> tests hold for every \<open>MaterialItem\<close>, whose fields are
  declared \<open>number\<close> (NaN included); \<open>m.bufferUnits || 0\<close> replaces a NaN buffer by 0.
\<close>

definition recalculateItem :: "jsnum \<Rightarrow> MaterialItem \<Rightarrow> MaterialItem" where
  "recalculateItem newBatchSize m =
     (let qty = qtyPerUnit m;
          buffer = js_or (bufferUnits m) (Fin 0);
          uCost = unitCost m
      in if js_gt uCost (Fin 0) \<or> js_gt qty (Fin 0)
         then m\<lparr>cost := js_mul (js_add (js_mul qty newBatchSize) buffer) uCost\<rparr>
         else m)"

definition recalculateMaterials :: "MaterialItem list \<Rightarrow> jsnum \<Rightarrow> MaterialItem list" where
  "recalculateMaterials currentMaterials newBatchSize =
     map (recalculateItem newBatchSize) currentMaterials"

text \<open>
  \<open>updateState(key, value)\<close> replaces one field of the state; the two keys used below.
\<close>

definition updateState_materials :: "FinancialState \<Rightarrow> MaterialItem list \<Rightarrow> FinancialState" where
  "updateState_materials prev v = prev\<lparr>materials := v\<rparr>"

definition updateState_customScenarios :: "FinancialState \<Rightarrow> ScenarioConfig list \<Rightarrow> FinancialState" where
  "updateState_customScenarios prev v = prev\<lparr>customScenarios := v\<rparr>"

definition updateBatchSize :: "FinancialState \<Rightarrow> jsnum \<Rightarrow> FinancialState" where
  "updateBatchSize state newSize =
     (let updatedMaterials = recalculateMaterials (materials state) newSize
      in state\<lparr>batchSize := newSize, materials := updatedMaterials\<rparr>)"

text \<open>
  The handlers take \<open>(field: keyof MaterialItem, value: string | number)\<close> and build
  \<open>{ ...item, [field]: value }\<close>. An edit is modelled as the field together with a value
  of the type \<open>MaterialItem\<close> declares for it; a pair whose value has another type breaks
  the declaration of \<open>MaterialItem\<close> and has no counterpart here. On a number,
  \<open>Number(value)\<close> is the identity.
\<close>

datatype MaterialEdit =
    Set_id string
  | Set_name string
  | Set_cost jsnum
  | Set_qtyPerUnit jsnum
  | Set_bufferUnits jsnum
  | Set_unitCost jsnum
  | Set_notes string

fun applyEdit :: "MaterialItem \<Rightarrow> MaterialEdit \<Rightarrow> MaterialItem" where
  "applyEdit item (Set_id v) = item\<lparr>mi_id := v\<rparr>"
| "applyEdit item (Set_name v) = item\<lparr>mi_name := v\<rparr>"
| "applyEdit item (Set_cost v) = item\<lparr>cost := v\<rparr>"
| "applyEdit item (Set_qtyPerUnit v) = item\<lparr>qtyPerUnit := v\<rparr>"
| "applyEdit item (Set_bufferUnits v) = item\<lparr>bufferUnits := v\<rparr>"
| "applyEdit item (Set_unitCost v) = item\<lparr>unitCost := v\<rparr>"
| "applyEdit item (Set_notes v) = item\<lparr>mi_notes := v\<rparr>"

definition handleMaterialChange :: "FinancialState \<Rightarrow> string \<Rightarrow> MaterialEdit \<Rightarrow> FinancialState" where
  "handleMaterialChange state ident e =
     (let newMats = map (\<lambda>item. if mi_id item = ident then applyEdit item e else item)
                        (materials state)
      in updateState_materials state newMats)"

section \<open>The detailed editor (MaterialManagerModal)\<close>

text \<open>
  The modal edits its own copy \<open>localMaterials\<close> of the material list, against the
  \<open>batchSize\<close> it was opened with. \<open>updateRow\<close> recomputes the cost of the edited row when
  the field is one of \<open>qtyPerUnit\<close>, \<open>bufferUnits\<close>, \<open>unitCost\<close>; \<open>handleSave\<close> hands
  the copy to \<open>onSave\<close>, which is \<open>updateState('materials', _)\<close>. \<open>updateRowItem\<close> is what
  \<open>updateRow\<close> does to a row whose id matches.
\<close>

fun isDetailEdit :: "MaterialEdit \<Rightarrow> bool" where
  "isDetailEdit (Set_qtyPerUnit v) = True"
| "isDetailEdit (Set_bufferUnits v) = True"
| "isDetailEdit (Set_unitCost v) = True"
| "isDetailEdit e = False"

definition updateRowItem :: "jsnum \<Rightarrow> MaterialEdit \<Rightarrow> MaterialItem \<Rightarrow> MaterialItem" where
  "updateRowItem batchSz e item =
     (let updatedItem = applyEdit item e
      in if isDetailEdit e
         then (let qty = (case e of Set_qtyPerUnit v \<Rightarrow> v | _ \<Rightarrow> qtyPerUnit item);
                   buff = (case e of Set_bufferUnits v \<Rightarrow> v | _ \<Rightarrow> bufferUnits item);
                   uCost = (case e of Set_unitCost v \<Rightarrow> v | _ \<Rightarrow> unitCost item)
               in updatedItem\<lparr>cost := js_mul (js_add (js_mul qty batchSz) buff) uCost\<rparr>)
         else updatedItem)"

definition updateRow :: "jsnum \<Rightarrow> MaterialItem list \<Rightarrow> string \<Rightarrow> MaterialEdit \<Rightarrow> MaterialItem list" where
  "updateRow batchSz prev ident e =
     map (\<lambda>item. if mi_id item \<noteq> ident then item else updateRowItem batchSz e item) prev"

definition handleSave :: "FinancialState \<Rightarrow> MaterialItem list \<Rightarrow> FinancialState" where
  "handleSave state localMaterials = updateState_materials state localMaterials"

section \<open>COGS aggregation (the App component, modules A and B)\<close>

definition totalDevCost :: "FinancialState \<Rightarrow> jsnum" where
  "totalDevCost state = foldl (\<lambda>acc item. js_add acc (amount item)) (Fin 0) (devCosts state)"

definition amortPerUnit :: "FinancialState \<Rightarrow> jsnum" where
  "amortPerUnit state =
     (if js_gt (amortizationQty state) (Fin 0)
      then js_div (totalDevCost state) (amortizationQty state) else Fin 0)"

definition totalBatchMaterialCost :: "FinancialState \<Rightarrow> jsnum" where
  "totalBatchMaterialCost state =
     foldl (\<lambda>acc item. js_add acc (cost item)) (Fin 0) (materials state)"

definition effectiveUnits :: "FinancialState \<Rightarrow> jsnum" where
  "effectiveUnits state = js_max (Fin 0) (js_sub (batchSize state) (wasteCount state))"

definition materialCostPerUnit :: "FinancialState \<Rightarrow> jsnum" where
  "materialCostPerUnit state =
     (if js_gt (effectiveUnits state) (Fin 0)
      then js_div (totalBatchMaterialCost state) (effectiveUnits state) else Fin 0)"

definition COGS :: "FinancialState \<Rightarrow> jsnum" where
  "COGS state = js_add (materialCostPerUnit state) (amortPerUnit state)"

section \<open>Scenario engine (the constants module and the App component, module C)\<close>

definition DEFAULT_SCENARIOS :: "SalesScenario list" where
  "DEFAULT_SCENARIOS =
    [\<lparr>sc_id = ''direct'', sc_name = ''Direct Sale'', discountPercent = Fin 0,
      commissionPercent = Fin 0, description = ''Direct to consumer (Website)''\<rparr>,
     \<lparr>sc_id = ''card'', sc_name = ''Card Sale'', discountPercent = Fin 0.035,
      commissionPercent = Fin 0, description = ''Processing fees included''\<rparr>,
     \<lparr>sc_id = ''specifier'', sc_name = ''Architect/Specifier'', discountPercent = Fin 0.15,
      commissionPercent = Fin 0, description = ''Trade discount''\<rparr>,
     \<lparr>sc_id = ''retail'', sc_name = ''Retail Store'', discountPercent = Fin 0.50,
      commissionPercent = Fin 0, description = ''Standard wholesale''\<rparr>,
     \<lparr>sc_id = ''distributor'', sc_name = ''Distributor'', discountPercent = Fin 0.60,
      commissionPercent = Fin 0, description = ''Volume partner''\<rparr>,
     \<lparr>sc_id = ''agent'', sc_name = ''Sales Agent'', discountPercent = Fin 0.50,
      commissionPercent = Fin 0.025, description = ''Wholesale + Commission''\<rparr>]"

definition INITIAL_STATE :: FinancialState where
  "INITIAL_STATE =
    \<lparr>devCosts =
       [\<lparr>ci_id = ''1'', ci_name = ''Industrial Design'', amount = Fin 5000\<rparr>,
        \<lparr>ci_id = ''2'', ci_name = ''Prototyping'', amount = Fin 1200\<rparr>,
        \<lparr>ci_id = ''3'', ci_name = ''Tooling'', amount = Fin 3500\<rparr>],
     amortizationQty = Fin 1000,
     batchSize = Fin 50,
     wasteCount = Fin 2,
     materials =
       [\<lparr>mi_id = ''1'', mi_name = ''Aluminum 6061'', cost = Fin 250, qtyPerUnit = Fin 0,
         bufferUnits = Fin 0, unitCost = Fin 0, mi_notes = ''Manual entry''\<rparr>,
        \<lparr>mi_id = ''2'', mi_name = ''Packaging'', cost = Fin 50, qtyPerUnit = Fin 0,
         bufferUnits = Fin 0, unitCost = Fin 0, mi_notes = ''Manual entry''\<rparr>,
        \<lparr>mi_id = ''3'', mi_name = ''Powder Coating'', cost = Fin 150, qtyPerUnit = Fin 0,
         bufferUnits = Fin 0, unitCost = Fin 0, mi_notes = ''Manual entry''\<rparr>],
     publicPrice = Fin 85,
     fixedMonthlyExpenses = Fin 2500,
     designerRoyaltyPercent = Fin 0.05,
     customScenarios =
       map (\<lambda>s. \<lparr>cfg_id = sc_id s, cfg_discountPercent = discountPercent s\<rparr>)
           DEFAULT_SCENARIOS\<rparr>"

text \<open>
  The body of \<open>DEFAULT_SCENARIOS.map(defaultScenario => ...)\<close>. The state's
  \<open>customScenarios\<close> is declared an array, so \<open>?.\<close> always reaches \<open>find\<close>, and the
  object \<open>find\<close> returns is truthy whenever it returns one.
\<close>

definition scenarioResult :: "FinancialState \<Rightarrow> SalesScenario \<Rightarrow> ScenarioResult" where
  "scenarioResult state defaultScenario =
     (let override = find (\<lambda>s. cfg_id s = sc_id defaultScenario) (customScenarios state);
          currentDiscount = (case override of
                               Some ov \<Rightarrow> cfg_discountPercent ov
                             | None \<Rightarrow> discountPercent defaultScenario);
          netRev = js_mul (publicPrice state) (js_sub (Fin 1) currentDiscount);
          royaltyAmount = js_mul netRev (designerRoyaltyPercent state);
          commissionAmount = js_mul netRev (commissionPercent defaultScenario);
          margin = js_sub (js_sub (js_sub netRev (COGS state)) royaltyAmount) commissionAmount;
          prof = margin;
          bep = (if js_gt margin (Fin 0)
                 then js_ceil (js_div (fixedMonthlyExpenses state) margin)
                 else PInf)
      in \<lparr>sc_id = sc_id defaultScenario,
          sc_name = sc_name defaultScenario,
          discountPercent = currentDiscount,
          commissionPercent = commissionPercent defaultScenario,
          description = description defaultScenario,
          netRevenue = netRev,
          grossMargin = margin,
          profit = prof,
          breakEvenUnits = bep,
          isProfitable = js_gt prof (Fin 0),
          roi = (if js_gt (COGS state) (Fin 0)
                 then js_mul (js_div prof (COGS state)) (Fin 100) else Fin 0)\<rparr>)"

definition scenarios :: "FinancialState \<Rightarrow> ScenarioResult list" where
  "scenarios state = map (scenarioResult state) DEFAULT_SCENARIOS"

subsection \<open>parseFloat\<close>

text \<open>
  \<open>parseFloat\<close> of ECMAScript: strip the leading white space, read the longest prefix
  that is a \<open>StrDecimalLiteral\<close> (an optional sign, then \<open>Infinity\<close> or decimal digits
  with an optional fraction and an optional exponent), and return NaN when there is no
  such prefix. Strings are lists of 8-bit characters, so the white space recognised is
  the ASCII part of ECMAScript's; the value of the literal is exact.
\<close>

definition isWhiteSpace :: "char \<Rightarrow> bool" where
  "isWhiteSpace c = (of_char c \<in> {9, 10, 11, 12, 13, 32 :: nat})"

definition isDecimalDigit :: "char \<Rightarrow> bool" where
  "isDecimalDigit c = (48 \<le> (of_char c :: nat) \<and> (of_char c :: nat) \<le> 57)"

definition digitValue :: "char \<Rightarrow> nat" where
  "digitValue c = of_char c - 48"

definition decimalValue :: "string \<Rightarrow> nat" where
  "decimalValue ds = foldl (\<lambda>acc c. 10 * acc + digitValue c) 0 ds"

definition startsWith :: "string \<Rightarrow> string \<Rightarrow> bool" where
  "startsWith s p = (take (length p) s = p)"

text \<open>
  The exponent after the mantissa: \<open>e\<close> or \<open>E\<close>, an optional sign and at least one
  digit. Without a digit the exponent is not part of the prefix, which is the exponent 0.
\<close>

definition exponentPart :: "string \<Rightarrow> int" where
  "exponentPart s =
     (case s of
        [] \<Rightarrow> 0
      | c # r \<Rightarrow>
          if c = CHR ''e'' \<or> c = CHR ''E'' then
            (case r of
               [] \<Rightarrow> 0
             | d # r' \<Rightarrow>
                 if d = CHR ''+'' then int (decimalValue (takeWhile isDecimalDigit r'))
                 else if d = CHR ''-'' then - int (decimalValue (takeWhile isDecimalDigit r'))
                 else int (decimalValue (takeWhile isDecimalDigit r)))
          else 0)"

definition scale10 :: "rat \<Rightarrow> int \<Rightarrow> rat" where
  "scale10 m e = (if 0 \<le> e then m * 10 ^ nat e else m / 10 ^ nat (- e))"

definition strUnsignedDecimalLiteral :: "string \<Rightarrow> jsnum" where
  "strUnsignedDecimalLiteral s =
     (if startsWith s ''Infinity'' then PInf
      else
        (let ip = takeWhile isDecimalDigit s;
             r1 = dropWhile isDecimalDigit s;
             hasDot = (case r1 of [] \<Rightarrow> False | c # t \<Rightarrow> c = CHR ''.'');
             fp = (if hasDot then takeWhile isDecimalDigit (tl r1) else []);
             r2 = (if hasDot then dropWhile isDecimalDigit (tl r1) else r1)
         in if ip = [] \<and> fp = [] then NaN
            else Fin (scale10 (of_nat (decimalValue ip)
                               + of_nat (decimalValue fp) / 10 ^ length fp)
                              (exponentPart r2))))"

definition parseFloat :: "string \<Rightarrow> jsnum" where
  "parseFloat s =
     (case dropWhile isWhiteSpace s of
        [] \<Rightarrow> NaN
      | c # r \<Rightarrow>
          if c = CHR ''+'' then strUnsignedDecimalLiteral r
          else if c = CHR ''-'' then js_neg (strUnsignedDecimalLiteral r)
          else strUnsignedDecimalLiteral (c # r))"

text \<open>
  \<open>handleScenarioDiscountChange\<close>. \<open>state.customScenarios || ...\<close> takes the left
  operand: the field is declared an array, and every array is truthy.
\<close>

definition handleScenarioDiscountChange :: "FinancialState \<Rightarrow> string \<Rightarrow> string \<Rightarrow> FinancialState" where
  "handleScenarioDiscountChange state ident val =
     (let floatVal = parseFloat val;
          newPercent = (if js_isNaN floatVal then Fin 0 else js_div floatVal (Fin 100));
          currentScenarios = customScenarios state;
          newScenarios = map (\<lambda>s. if cfg_id s = ident then s\<lparr>cfg_discountPercent := newPercent\<rparr> else s)
                             currentScenarios
      in updateState_customScenarios state newScenarios)"

text \<open>\<open>handleClearAll\<close> and \<open>handleResetDefaults\<close> replace the state, whatever it was.\<close>

definition handleClearAll :: "FinancialState \<Rightarrow> FinancialState" where
  "handleClearAll state =
    \<lparr>devCosts = [],
     amortizationQty = Fin 0,
     batchSize = Fin 0,
     wasteCount = Fin 0,
     materials = [],
     publicPrice = Fin 0,
     fixedMonthlyExpenses = Fin 0,
     designerRoyaltyPercent = Fin 0,
     customScenarios =
       map (\<lambda>s. \<lparr>cfg_id = sc_id s, cfg_discountPercent = Fin 0\<rparr>) DEFAULT_SCENARIOS\<rparr>"

definition handleResetDefaults :: "FinancialState \<Rightarrow> FinancialState" where
  "handleResetDefaults state = INITIAL_STATE"

section \<open>Properties\<close>

lemma recalculateItem_idem:
  "recalculateItem b (recalculateItem b m) = recalculateItem b m"
  by (simp add: recalculateItem_def Let_def)

text \<open>
  Claim C8. Batch-size recalculation is idempotent: recalculating a material list twice
  with the same batch size gives the list that one recalculation gives.
\<close>

theorem recalculateMaterials_idempotent:
  "recalculateMaterials (recalculateMaterials m b) b = recalculateMaterials m b"
  by (simp add: recalculateMaterials_def recalculateItem_idem)

subsection \<open>The default snapshot\<close>

text \<open>
  Claim C1. On the default initial state (amortizationQty = 1000, batchSize = 50,
  wasteCount = 2, publicPrice = 85, designerRoyaltyPercent = 0.05,
  fixedMonthlyExpenses = 2500, three materials in manual mode) the development costs
  total 9700 and the materials 450; the derived values are amortPerUnit = 9.7, effectiveUnits = 48,
  materialCostPerUnit = 9.375 and COGS = 19.075; the result of the scenario \<open>retail\<close>
  has discount 0.50, commission 0, netRevenue = 42.5, grossMargin = profit = 21.3, is
  profitable, and its break-even is ceil(2500 / 21.3) = 118 units; the royalty on that
  net revenue is 2.125.
\<close>

theorem initial_state_example:
  "amortizationQty INITIAL_STATE = Fin 1000 \<and>
   batchSize INITIAL_STATE = Fin 50 \<and>
   wasteCount INITIAL_STATE = Fin 2 \<and>
   publicPrice INITIAL_STATE = Fin 85 \<and>
   designerRoyaltyPercent INITIAL_STATE = Fin 0.05 \<and>
   fixedMonthlyExpenses INITIAL_STATE = Fin 2500 \<and>
   map (\<lambda>m. (qtyPerUnit m, unitCost m)) (materials INITIAL_STATE) =
     [(Fin 0, Fin 0), (Fin 0, Fin 0), (Fin 0, Fin 0)] \<and>
   totalDevCost INITIAL_STATE = Fin 9700 \<and>
   amortPerUnit INITIAL_STATE = Fin 9.7 \<and>
   totalBatchMaterialCost INITIAL_STATE = Fin 450 \<and>
   effectiveUnits INITIAL_STATE = Fin 48 \<and>
   materialCostPerUnit INITIAL_STATE = Fin 9.375 \<and>
   COGS INITIAL_STATE = Fin 19.075 \<and>
   find (\<lambda>r. sc_id r = ''retail'') (scenarios INITIAL_STATE) =
     Some \<lparr>sc_id = ''retail'', sc_name = ''Retail Store'', discountPercent = Fin 0.50,
           commissionPercent = Fin 0, description = ''Standard wholesale'',
           netRevenue = Fin 42.5, grossMargin = Fin 21.3, profit = Fin 21.3,
           breakEvenUnits = Fin 118, isProfitable = True, roi = Fin (85200 / 763)\<rparr> \<and>
   js_mul (Fin 42.5) (designerRoyaltyPercent INITIAL_STATE) = Fin 2.125 \<and>
   js_ceil (js_div (fixedMonthlyExpenses INITIAL_STATE) (Fin 21.3)) = Fin 118"
  by code_simp

subsection \<open>Batch-size recalculation\<close>

lemma js_or_zero: "js_or x (Fin 0) = (if x = NaN then Fin 0 else x)"
  by (simp add: js_or_def js_truthy_def)

lemma recalculateItem_frame:
  "mi_id (recalculateItem b m) = mi_id m"
  "mi_name (recalculateItem b m) = mi_name m"
  "qtyPerUnit (recalculateItem b m) = qtyPerUnit m"
  "bufferUnits (recalculateItem b m) = bufferUnits m"
  "unitCost (recalculateItem b m) = unitCost m"
  "mi_notes (recalculateItem b m) = mi_notes m"
  by (simp_all add: recalculateItem_def Let_def)

lemma recalculateItem_calculated:
  "js_gt (unitCost m) (Fin 0) \<or> js_gt (qtyPerUnit m) (Fin 0) \<Longrightarrow>
   cost (recalculateItem b m) =
     js_mul (js_add (js_mul (qtyPerUnit m) b) (if bufferUnits m = NaN then Fin 0 else bufferUnits m))
            (unitCost m)"
  by (simp add: recalculateItem_def Let_def js_or_zero)

lemma recalculateItem_manual:
  "\<not> js_gt (unitCost m) (Fin 0) \<Longrightarrow> \<not> js_gt (qtyPerUnit m) (Fin 0) \<Longrightarrow> recalculateItem b m = m"
  by (simp add: recalculateItem_def Let_def)

lemma recalculateMaterials_nth:
  "i < length ms \<Longrightarrow> recalculateMaterials ms b ! i = recalculateItem b (ms ! i)"
  by (simp add: recalculateMaterials_def)

text \<open>
  Claim C2, amended. For every material list and every new batch size,
  \<open>recalculateMaterials\<close> returns a list of the same length, and at every position the
  id, name, qtyPerUnit, bufferUnits, unitCost and notes are those of the input item. An
  item with unitCost > 0 or qtyPerUnit > 0 gets
  cost = (qtyPerUnit * newBatchSize + buffer) * unitCost, where buffer is the item's
  bufferUnits, read as 0 when bufferUnits is NaN (\<open>m.bufferUnits || 0\<close>). An item with
  unitCost = 0 and qtyPerUnit = 0 keeps its cost.
\<close>

theorem recalculateMaterials_spec:
  "length (recalculateMaterials ms b) = length ms \<and>
   (\<forall>i<length ms.
      mi_id (recalculateMaterials ms b ! i) = mi_id (ms ! i) \<and>
      mi_name (recalculateMaterials ms b ! i) = mi_name (ms ! i) \<and>
      qtyPerUnit (recalculateMaterials ms b ! i) = qtyPerUnit (ms ! i) \<and>
      bufferUnits (recalculateMaterials ms b ! i) = bufferUnits (ms ! i) \<and>
      unitCost (recalculateMaterials ms b ! i) = unitCost (ms ! i) \<and>
      mi_notes (recalculateMaterials ms b ! i) = mi_notes (ms ! i) \<and>
      (js_gt (unitCost (ms ! i)) (Fin 0) \<or> js_gt (qtyPerUnit (ms ! i)) (Fin 0) \<longrightarrow>
         cost (recalculateMaterials ms b ! i) =
           js_mul (js_add (js_mul (qtyPerUnit (ms ! i)) b)
                          (if bufferUnits (ms ! i) = NaN then Fin 0 else bufferUnits (ms ! i)))
                  (unitCost (ms ! i))) \<and>
      (unitCost (ms ! i) = Fin 0 \<and> qtyPerUnit (ms ! i) = Fin 0 \<longrightarrow>
         cost (recalculateMaterials ms b ! i) = cost (ms ! i)))"
proof -
  have len: "length (recalculateMaterials ms b) = length ms"
    by (simp add: recalculateMaterials_def)
  have manual: "cost (recalculateItem b m) = cost m"
    if "unitCost m = Fin 0" "qtyPerUnit m = Fin 0" for m
    using that by (simp add: recalculateItem_manual)
  show ?thesis
    using len
    by (auto simp: recalculateMaterials_nth recalculateItem_frame recalculateItem_calculated manual)
qed

text \<open>
  The theorem at a list of one calculated row (2 per unit, buffer 3, unit cost 5) and
  one manual row with a positive buffer, for a batch of 10: the first cost becomes
  (2 * 10 + 3) * 5 = 115, the second stays 7.
\<close>

theorem recalculateMaterials_spec_witness:
  "js_gt (unitCost \<lparr>mi_id = ''a'', mi_name = ''Tube'', cost = Fin 1, qtyPerUnit = Fin 2,
        bufferUnits = Fin 3, unitCost = Fin 5, mi_notes = ''''\<rparr>) (Fin 0) \<and>
   length (recalculateMaterials
      [\<lparr>mi_id = ''a'', mi_name = ''Tube'', cost = Fin 1, qtyPerUnit = Fin 2,
        bufferUnits = Fin 3, unitCost = Fin 5, mi_notes = ''''\<rparr>,
       \<lparr>mi_id = ''b'', mi_name = ''Box'', cost = Fin 7, qtyPerUnit = Fin 0,
        bufferUnits = Fin 4, unitCost = Fin 0, mi_notes = ''''\<rparr>] (Fin 10)) = 2 \<and>
   map cost (recalculateMaterials
      [\<lparr>mi_id = ''a'', mi_name = ''Tube'', cost = Fin 1, qtyPerUnit = Fin 2,
        bufferUnits = Fin 3, unitCost = Fin 5, mi_notes = ''''\<rparr>,
       \<lparr>mi_id = ''b'', mi_name = ''Box'', cost = Fin 7, qtyPerUnit = Fin 0,
        bufferUnits = Fin 4, unitCost = Fin 0, mi_notes = ''''\<rparr>] (Fin 10)) = [Fin 115, Fin 7]"
  using recalculateMaterials_spec
    [of "[\<lparr>mi_id = ''a'', mi_name = ''Tube'', cost = Fin 1, qtyPerUnit = Fin 2,
        bufferUnits = Fin 3, unitCost = Fin 5, mi_notes = ''''\<rparr>,
       \<lparr>mi_id = ''b'', mi_name = ''Box'', cost = Fin 7, qtyPerUnit = Fin 0,
        bufferUnits = Fin 4, unitCost = Fin 0, mi_notes = ''''\<rparr>]" "Fin 10"]
  by (simp add: recalculateMaterials_def recalculateItem_def Let_def js_or_zero)

text \<open>
  The claim as written fails on a calculated row whose bufferUnits is NaN: the code
  computes (2 * 10 + 0) * 5 = 100, the formula of the claim gives NaN.
\<close>

theorem recalculateMaterials_nan_buffer_counterexample:
  "js_gt (unitCost \<lparr>mi_id = ''a'', mi_name = ''Tube'', cost = Fin 1, qtyPerUnit = Fin 2,
        bufferUnits = NaN, unitCost = Fin 5, mi_notes = ''''\<rparr>) (Fin 0) \<and>
   cost (recalculateMaterials
      [\<lparr>mi_id = ''a'', mi_name = ''Tube'', cost = Fin 1, qtyPerUnit = Fin 2,
        bufferUnits = NaN, unitCost = Fin 5, mi_notes = ''''\<rparr>] (Fin 10) ! 0) = Fin 100 \<and>
   js_mul (js_add (js_mul (Fin 2) (Fin 10)) NaN) (Fin 5) = NaN \<and>
   cost (recalculateMaterials
      [\<lparr>mi_id = ''a'', mi_name = ''Tube'', cost = Fin 1, qtyPerUnit = Fin 2,
        bufferUnits = NaN, unitCost = Fin 5, mi_notes = ''''\<rparr>] (Fin 10) ! 0) \<noteq>
   js_mul (js_add (js_mul (Fin 2) (Fin 10)) NaN) (Fin 5)"
  by (simp add: recalculateMaterials_def recalculateItem_def Let_def js_or_zero)

subsection \<open>Direct cost edits\<close>

lemma recalculateItem_cost_write:
  "js_gt (unitCost m) (Fin 0) \<or> js_gt (qtyPerUnit m) (Fin 0) \<Longrightarrow>
   recalculateItem b (m\<lparr>cost := v\<rparr>) = recalculateItem b m"
  by (simp add: recalculateItem_def Let_def)

text \<open>
  Claim C9, amended. \<open>handleMaterialChange\<close> writes the cost of every item that carries
  the given id. When every item carrying the id is in calculated mode (unitCost > 0 or
  qtyPerUnit > 0), then for every value and every batch size the write followed by
  \<open>recalculateMaterials\<close> gives the list that \<open>recalculateMaterials\<close> alone gives.
\<close>

theorem direct_cost_write_superseded:
  assumes "\<forall>item\<in>set (materials st).
             mi_id item = ident \<longrightarrow>
             js_gt (unitCost item) (Fin 0) \<or> js_gt (qtyPerUnit item) (Fin 0)"
  shows "recalculateMaterials (materials (handleMaterialChange st ident (Set_cost v))) b =
         recalculateMaterials (materials st) b"
proof -
  have "recalculateItem b (if mi_id item = ident then applyEdit item (Set_cost v) else item) =
        recalculateItem b item" if "item \<in> set (materials st)" for item
    using that assms by (simp add: recalculateItem_cost_write)
  then show ?thesis
    by (simp add: recalculateMaterials_def handleMaterialChange_def updateState_materials_def
        Let_def comp_def cong: map_cong)
qed

theorem direct_cost_write_superseded_witness:
  "js_gt (unitCost \<lparr>mi_id = ''a'', mi_name = ''Tube'', cost = Fin 115, qtyPerUnit = Fin 2,
            bufferUnits = Fin 3, unitCost = Fin 5, mi_notes = ''''\<rparr>) (Fin 0) \<and>
   recalculateMaterials (materials (handleMaterialChange
      (INITIAL_STATE\<lparr>materials :=
        [\<lparr>mi_id = ''a'', mi_name = ''Tube'', cost = Fin 115, qtyPerUnit = Fin 2,
          bufferUnits = Fin 3, unitCost = Fin 5, mi_notes = ''''\<rparr>,
         \<lparr>mi_id = ''b'', mi_name = ''Box'', cost = Fin 7, qtyPerUnit = Fin 0,
          bufferUnits = Fin 0, unitCost = Fin 0, mi_notes = ''''\<rparr>]\<rparr>)
      ''a'' (Set_cost (Fin 99)))) (Fin 20) =
   recalculateMaterials
        [\<lparr>mi_id = ''a'', mi_name = ''Tube'', cost = Fin 115, qtyPerUnit = Fin 2,
          bufferUnits = Fin 3, unitCost = Fin 5, mi_notes = ''''\<rparr>,
         \<lparr>mi_id = ''b'', mi_name = ''Box'', cost = Fin 7, qtyPerUnit = Fin 0,
          bufferUnits = Fin 0, unitCost = Fin 0, mi_notes = ''''\<rparr>] (Fin 20)"
  using direct_cost_write_superseded
    [of "INITIAL_STATE\<lparr>materials :=
        [\<lparr>mi_id = ''a'', mi_name = ''Tube'', cost = Fin 115, qtyPerUnit = Fin 2,
          bufferUnits = Fin 3, unitCost = Fin 5, mi_notes = ''''\<rparr>,
         \<lparr>mi_id = ''b'', mi_name = ''Box'', cost = Fin 7, qtyPerUnit = Fin 0,
          bufferUnits = Fin 0, unitCost = Fin 0, mi_notes = ''''\<rparr>]\<rparr>" "''a''" "Fin 99" "Fin 20"]
  by simp

text \<open>
  The claim as written fails when a manual item shares the id of a calculated one: the
  write reaches both, the recalculation restores the calculated one only, and the
  manual item keeps 99 where the recalculation alone leaves 7.
\<close>

theorem direct_cost_write_shared_id_counterexample:
  "js_gt (unitCost \<lparr>mi_id = ''a'', mi_name = ''Tube'', cost = Fin 115, qtyPerUnit = Fin 2,
            bufferUnits = Fin 3, unitCost = Fin 5, mi_notes = ''''\<rparr>) (Fin 0) \<and>
   map cost (recalculateMaterials (materials (handleMaterialChange
      (INITIAL_STATE\<lparr>materials :=
        [\<lparr>mi_id = ''a'', mi_name = ''Tube'', cost = Fin 115, qtyPerUnit = Fin 2,
          bufferUnits = Fin 3, unitCost = Fin 5, mi_notes = ''''\<rparr>,
         \<lparr>mi_id = ''a'', mi_name = ''Box'', cost = Fin 7, qtyPerUnit = Fin 0,
          bufferUnits = Fin 0, unitCost = Fin 0, mi_notes = ''''\<rparr>]\<rparr>)
      ''a'' (Set_cost (Fin 99)))) (Fin 20)) = [Fin 215, Fin 99] \<and>
   map cost (recalculateMaterials
        [\<lparr>mi_id = ''a'', mi_name = ''Tube'', cost = Fin 115, qtyPerUnit = Fin 2,
          bufferUnits = Fin 3, unitCost = Fin 5, mi_notes = ''''\<rparr>,
         \<lparr>mi_id = ''a'', mi_name = ''Box'', cost = Fin 7, qtyPerUnit = Fin 0,
          bufferUnits = Fin 0, unitCost = Fin 0, mi_notes = ''''\<rparr>] (Fin 20)) = [Fin 215, Fin 7] \<and>
   recalculateMaterials (materials (handleMaterialChange
      (INITIAL_STATE\<lparr>materials :=
        [\<lparr>mi_id = ''a'', mi_name = ''Tube'', cost = Fin 115, qtyPerUnit = Fin 2,
          bufferUnits = Fin 3, unitCost = Fin 5, mi_notes = ''''\<rparr>,
         \<lparr>mi_id = ''a'', mi_name = ''Box'', cost = Fin 7, qtyPerUnit = Fin 0,
          bufferUnits = Fin 0, unitCost = Fin 0, mi_notes = ''''\<rparr>]\<rparr>)
      ''a'' (Set_cost (Fin 99)))) (Fin 20) \<noteq>
   recalculateMaterials
        [\<lparr>mi_id = ''a'', mi_name = ''Tube'', cost = Fin 115, qtyPerUnit = Fin 2,
          bufferUnits = Fin 3, unitCost = Fin 5, mi_notes = ''''\<rparr>,
         \<lparr>mi_id = ''a'', mi_name = ''Box'', cost = Fin 7, qtyPerUnit = Fin 0,
          bufferUnits = Fin 0, unitCost = Fin 0, mi_notes = ''''\<rparr>] (Fin 20)"
  by (simp add: recalculateMaterials_def recalculateItem_def handleMaterialChange_def
      updateState_materials_def Let_def js_or_def js_truthy_def)

subsection \<open>Manual mode in the recomputation paths\<close>

text \<open>
  Claim C5. Every recomputation path (the batch-size change, the field edit of the
  modal, the save) is to treat an item with qtyPerUnit = 0 and unitCost = 0 as manual,
  also when bufferUnits > 0, and leave its cost alone. The code does not: evaluated on
  the default snapshot, whose first material is manual with cost 250, \<open>updateRow\<close> on
  \<open>bufferUnits\<close> with the value 5 leaves the row manual (qtyPerUnit = 0, unitCost = 0,
  bufferUnits = 5) and overwrites its cost with (0 * 50 + 5) * 0 = 0, and the save puts
  that 0 into the state. The batch-size change on the same row with the same buffer 5
  keeps the cost 250.
\<close>

theorem updateRow_overwrites_manual_cost:
  "qtyPerUnit (materials INITIAL_STATE ! 0) = Fin 0 \<and>
   unitCost (materials INITIAL_STATE ! 0) = Fin 0 \<and>
   cost (materials INITIAL_STATE ! 0) = Fin 250 \<and>
   updateRow (batchSize INITIAL_STATE) (materials INITIAL_STATE) ''1''
             (Set_bufferUnits (Fin 5)) ! 0 =
     \<lparr>mi_id = ''1'', mi_name = ''Aluminum 6061'', cost = Fin 0, qtyPerUnit = Fin 0,
      bufferUnits = Fin 5, unitCost = Fin 0, mi_notes = ''Manual entry''\<rparr> \<and>
   materials (handleSave INITIAL_STATE
                (updateRow (batchSize INITIAL_STATE) (materials INITIAL_STATE) ''1''
                           (Set_bufferUnits (Fin 5)))) ! 0 =
     \<lparr>mi_id = ''1'', mi_name = ''Aluminum 6061'', cost = Fin 0, qtyPerUnit = Fin 0,
      bufferUnits = Fin 5, unitCost = Fin 0, mi_notes = ''Manual entry''\<rparr> \<and>
   totalBatchMaterialCost INITIAL_STATE = Fin 450 \<and>
   totalBatchMaterialCost
     (handleSave INITIAL_STATE
        (updateRow (batchSize INITIAL_STATE) (materials INITIAL_STATE) ''1''
                   (Set_bufferUnits (Fin 5)))) = Fin 200 \<and>
   materials (updateBatchSize
                (handleMaterialChange INITIAL_STATE ''1'' (Set_bufferUnits (Fin 5)))
                (Fin 80)) ! 0 =
     \<lparr>mi_id = ''1'', mi_name = ''Aluminum 6061'', cost = Fin 250, qtyPerUnit = Fin 0,
      bufferUnits = Fin 5, unitCost = Fin 0, mi_notes = ''Manual entry''\<rparr>"
  by code_simp

subsection \<open>Writing a scenario discount\<close>

text \<open>
  Claim C10. For every id and every input string, \<open>handleScenarioDiscountChange\<close> keeps
  the length of the override table and the ids in their order, leaves every entry with
  another id as it is, changes no other field of the state, and, when no entry carries
  the id, returns the state unchanged: no entry is created, and the scenario results
  are those of before.
\<close>

theorem handleScenarioDiscountChange_frame:
  "length (customScenarios (handleScenarioDiscountChange st ident val)) =
     length (customScenarios st) \<and>
   map cfg_id (customScenarios (handleScenarioDiscountChange st ident val)) =
     map cfg_id (customScenarios st) \<and>
   (\<forall>i<length (customScenarios st).
      cfg_id (customScenarios st ! i) \<noteq> ident \<longrightarrow>
      customScenarios (handleScenarioDiscountChange st ident val) ! i = customScenarios st ! i) \<and>
   handleScenarioDiscountChange st ident val =
     st\<lparr>customScenarios := customScenarios (handleScenarioDiscountChange st ident val)\<rparr> \<and>
   (ident \<notin> cfg_id ` set (customScenarios st) \<longrightarrow>
      handleScenarioDiscountChange st ident val = st \<and>
      scenarios (handleScenarioDiscountChange st ident val) = scenarios st)"
proof -
  let ?h = "\<lambda>s. if cfg_id s = ident
                 then s\<lparr>cfg_discountPercent :=
                          if js_isNaN (parseFloat val) then Fin 0
                          else js_div (parseFloat val) (Fin 100)\<rparr>
                 else s"
  have cs: "customScenarios (handleScenarioDiscountChange st ident val) =
            map ?h (customScenarios st)"
    by (simp add: handleScenarioDiscountChange_def updateState_customScenarios_def Let_def)
  have ids: "map cfg_id (map ?h (customScenarios st)) = map cfg_id (customScenarios st)"
    by (induction "customScenarios st") auto
  have absent: "map ?h (customScenarios st) = customScenarios st"
    if "ident \<notin> cfg_id ` set (customScenarios st)"
    using that by (intro map_idI) auto
  have rest: "handleScenarioDiscountChange st ident val =
              st\<lparr>customScenarios := map ?h (customScenarios st)\<rparr>"
    by (simp add: handleScenarioDiscountChange_def updateState_customScenarios_def Let_def)
  show ?thesis
    unfolding cs using ids absent rest by (auto simp: cs)
qed

theorem handleScenarioDiscountChange_frame_witness:
  "cfg_id (customScenarios INITIAL_STATE ! 0) \<noteq> ''retail'' \<and>
   customScenarios (handleScenarioDiscountChange INITIAL_STATE ''retail'' ''35'') ! 0 =
     \<lparr>cfg_id = ''direct'', cfg_discountPercent = Fin 0\<rparr> \<and>
   ''wholesale'' \<notin> cfg_id ` set (customScenarios INITIAL_STATE) \<and>
   handleScenarioDiscountChange INITIAL_STATE ''wholesale'' ''35'' = INITIAL_STATE"
  using handleScenarioDiscountChange_frame [of INITIAL_STATE "''retail''" "''35''"]
    handleScenarioDiscountChange_frame [of INITIAL_STATE "''wholesale''" "''35''"]
  by (simp add: INITIAL_STATE_def DEFAULT_SCENARIOS_def)

lemma find_after_write:
  assumes "k \<in> f ` set cs" and "\<And>s. f (h s) = f s"
  shows "find (\<lambda>s. f s = k) (map (\<lambda>s. if f s = k then h s else s) cs) =
         map_option h (find (\<lambda>s. f s = k) cs) \<and> find (\<lambda>s. f s = k) cs \<noteq> None"
  using assms by (induction cs) auto

text \<open>
  Claim C6. \<open>handleScenarioDiscountChange\<close> is a total function of the state, the id and
  the string, with no failing branch. After the write every entry that carries the id
  holds 0 when \<open>parseFloat\<close> of the string is NaN, and v / 100 when \<open>parseFloat\<close> gives
  the number v; when the table has an entry for the id, that is the value the lookup by
  id finds. In particular \<open>abc\<close> does not parse, and writing it to \<open>retail\<close> on the
  default state, where the default discount of \<open>retail\<close> is 0.50, stores the override 0,
  which is then the discount of the \<open>retail\<close> result.
\<close>

theorem handleScenarioDiscountChange_stores:
  "(\<forall>c\<in>set (customScenarios (handleScenarioDiscountChange st ident val)).
      cfg_id c = ident \<longrightarrow>
      (js_isNaN (parseFloat val) \<longrightarrow> cfg_discountPercent c = Fin 0) \<and>
      (\<not> js_isNaN (parseFloat val) \<longrightarrow>
         cfg_discountPercent c = js_div (parseFloat val) (Fin 100))) \<and>
   (ident \<in> cfg_id ` set (customScenarios st) \<longrightarrow>
      map_option cfg_discountPercent
        (find (\<lambda>s. cfg_id s = ident)
              (customScenarios (handleScenarioDiscountChange st ident val))) =
      Some (if js_isNaN (parseFloat val) then Fin 0 else js_div (parseFloat val) (Fin 100))) \<and>
   parseFloat ''abc'' = NaN \<and>
   map discountPercent (filter (\<lambda>s. sc_id s = ''retail'') DEFAULT_SCENARIOS) = [Fin 0.50] \<and>
   find (\<lambda>s. cfg_id s = ''retail'')
        (customScenarios (handleScenarioDiscountChange INITIAL_STATE ''retail'' ''abc'')) =
     Some \<lparr>cfg_id = ''retail'', cfg_discountPercent = Fin 0\<rparr> \<and>
   map discountPercent
       (filter (\<lambda>r. sc_id r = ''retail'')
               (scenarios (handleScenarioDiscountChange INITIAL_STATE ''retail'' ''abc''))) =
     [Fin 0]"
proof -
  let ?new = "if js_isNaN (parseFloat val) then Fin 0 else js_div (parseFloat val) (Fin 100)"
  let ?h = "\<lambda>s. s\<lparr>cfg_discountPercent := ?new\<rparr>"
  have cs: "customScenarios (handleScenarioDiscountChange st ident val) =
            map (\<lambda>s. if cfg_id s = ident then ?h s else s) (customScenarios st)"
    by (simp add: handleScenarioDiscountChange_def updateState_customScenarios_def Let_def)
  have entries: "cfg_discountPercent c = ?new"
    if "c \<in> set (customScenarios (handleScenarioDiscountChange st ident val))"
      and "cfg_id c = ident" for c
  proof -
    from that(1) obtain s where "c = (if cfg_id s = ident then ?h s else s)"
      unfolding cs set_map by blast
    with that(2) show ?thesis
      by (simp split: if_splits)
  qed
  have lookup: "map_option cfg_discountPercent
        (find (\<lambda>s. cfg_id s = ident)
              (customScenarios (handleScenarioDiscountChange st ident val))) = Some ?new"
    if "ident \<in> cfg_id ` set (customScenarios st)"
  proof -
    from find_after_write [of ident cfg_id "customScenarios st" ?h, OF that]
    obtain s where "find (\<lambda>s. cfg_id s = ident) (customScenarios st) = Some s"
      and "find (\<lambda>s. cfg_id s = ident)
             (map (\<lambda>s. if cfg_id s = ident then ?h s else s) (customScenarios st)) = Some (?h s)"
      by auto
    then show ?thesis
      unfolding cs by simp
  qed
  have abc: "parseFloat ''abc'' = NaN"
    by code_simp
  have dflt: "map discountPercent (filter (\<lambda>s. sc_id s = ''retail'') DEFAULT_SCENARIOS) = [Fin 0.50]"
    by code_simp
  have stored: "find (\<lambda>s. cfg_id s = ''retail'')
        (customScenarios (handleScenarioDiscountChange INITIAL_STATE ''retail'' ''abc'')) =
     Some \<lparr>cfg_id = ''retail'', cfg_discountPercent = Fin 0\<rparr>"
    by code_simp
  have used: "map discountPercent
       (filter (\<lambda>r. sc_id r = ''retail'')
               (scenarios (handleScenarioDiscountChange INITIAL_STATE ''retail'' ''abc''))) =
     [Fin 0]"
    by code_simp
  have nan: "js_isNaN (parseFloat val) \<Longrightarrow> ?new = Fin 0"
    and num: "\<not> js_isNaN (parseFloat val) \<Longrightarrow> ?new = js_div (parseFloat val) (Fin 100)"
    by simp_all
  from entries nan num lookup abc dflt stored used show ?thesis
    by metis
qed

text \<open>The theorem at the strings \<open>abc\<close> (not a number) and \<open>35\<close> (the number 35).\<close>

theorem handleScenarioDiscountChange_stores_witness:
  "''retail'' \<in> cfg_id ` set (customScenarios INITIAL_STATE) \<and>
   js_isNaN (parseFloat ''abc'') \<and>
   map_option cfg_discountPercent
     (find (\<lambda>s. cfg_id s = ''retail'')
           (customScenarios (handleScenarioDiscountChange INITIAL_STATE ''retail'' ''abc''))) =
     Some (Fin 0) \<and>
   parseFloat ''35'' = Fin 35 \<and>
   map_option cfg_discountPercent
     (find (\<lambda>s. cfg_id s = ''retail'')
           (customScenarios (handleScenarioDiscountChange INITIAL_STATE ''retail'' ''35''))) =
     Some (Fin 0.35)"
proof -
  have mem: "''retail'' \<in> cfg_id ` set (customScenarios INITIAL_STATE)"
    by (simp add: INITIAL_STATE_def DEFAULT_SCENARIOS_def)
  have abc: "js_isNaN (parseFloat ''abc'')"
    by code_simp
  have num: "parseFloat ''35'' = Fin 35"
    by code_simp
  from mem abc num
    handleScenarioDiscountChange_stores [of INITIAL_STATE "''retail''" "''abc''"]
    handleScenarioDiscountChange_stores [of INITIAL_STATE "''retail''" "''35''"]
  show ?thesis
    by (simp add: js_isNaN_def)
qed

subsection \<open>COGS\<close>








subsection \<open>Scenario results\<close>

lemma override_lookup:
  "map_option cfg_discountPercent (find (\<lambda>s. cfg_id s = k) cs) =
   map_of (map (\<lambda>c. (cfg_id c, cfg_discountPercent c)) cs) k"
  by (induction cs) simp_all

lemma currentDiscount_lookup:
  "(case find (\<lambda>s. cfg_id s = k) cs of Some ov \<Rightarrow> cfg_discountPercent ov | None \<Rightarrow> d) =
   (case map_of (map (\<lambda>c. (cfg_id c, cfg_discountPercent c)) cs) k of
      Some x \<Rightarrow> x | None \<Rightarrow> d)"
  unfolding override_lookup [symmetric]
  by (cases "find (\<lambda>s. cfg_id s = k) cs") simp_all

lemma scenarios_nth:
  "i < length DEFAULT_SCENARIOS \<Longrightarrow>
   scenarios st ! i = scenarioResult st (DEFAULT_SCENARIOS ! i)"
  by (simp add: scenarios_def)

lemma scenarios_ids:
  "map sc_id (scenarios st) =
   [''direct'', ''card'', ''specifier'', ''retail'', ''distributor'', ''agent'']"
  by (simp add: scenarios_def scenarioResult_def Let_def DEFAULT_SCENARIOS_def)

text \<open>
  Claim C3. For every state the scenario results are one per default scenario, in the
  declaration order direct, card, specifier, retail, distributor, agent, whatever
  \<open>customScenarios\<close> holds. The result at each position carries the id, name,
  description and commission c of the default scenario at that position; its discount d
  is the discount of the first override entry with the scenario's id when there is one,
  else the scenario's default; and netRevenue = publicPrice * (1 - d),
  grossMargin = netRevenue - COGS - netRevenue * designerRoyaltyPercent - netRevenue * c,
  profit = grossMargin, isProfitable is profit > 0, and roi = (profit / COGS) * 100 when
  COGS > 0 and 0 when COGS = 0.
\<close>

theorem scenarios_spec:
  "map sc_id (scenarios st) =
     [''direct'', ''card'', ''specifier'', ''retail'', ''distributor'', ''agent''] \<and>
   length (scenarios st) = length DEFAULT_SCENARIOS \<and>
   (\<forall>i<length DEFAULT_SCENARIOS.
      let S = DEFAULT_SCENARIOS ! i;
          r = scenarios st ! i;
          d = (case map_of (map (\<lambda>c. (cfg_id c, cfg_discountPercent c)) (customScenarios st))
                           (sc_id S) of
                 Some x \<Rightarrow> x
               | None \<Rightarrow> discountPercent S);
          c = commissionPercent S
      in sc_id r = sc_id S \<and> sc_name r = sc_name S \<and> description r = description S \<and>
         commissionPercent r = c \<and>
         discountPercent r = d \<and>
         netRevenue r = js_mul (publicPrice st) (js_sub (Fin 1) d) \<and>
         grossMargin r =
           js_sub (js_sub (js_sub (netRevenue r) (COGS st))
                          (js_mul (netRevenue r) (designerRoyaltyPercent st)))
                  (js_mul (netRevenue r) c) \<and>
         profit r = grossMargin r \<and>
         isProfitable r = js_gt (profit r) (Fin 0) \<and>
         (js_gt (COGS st) (Fin 0) \<longrightarrow>
            roi r = js_mul (js_div (profit r) (COGS st)) (Fin 100)) \<and>
         (COGS st = Fin 0 \<longrightarrow> roi r = Fin 0))"
proof -
  have len: "length (scenarios st) = length DEFAULT_SCENARIOS"
    by (simp add: scenarios_def)
  have each: "let S = DEFAULT_SCENARIOS ! i;
          r = scenarios st ! i;
          d = (case map_of (map (\<lambda>c. (cfg_id c, cfg_discountPercent c)) (customScenarios st))
                           (sc_id S) of
                 Some x \<Rightarrow> x
               | None \<Rightarrow> discountPercent S);
          c = commissionPercent S
      in sc_id r = sc_id S \<and> sc_name r = sc_name S \<and> description r = description S \<and>
         commissionPercent r = c \<and>
         discountPercent r = d \<and>
         netRevenue r = js_mul (publicPrice st) (js_sub (Fin 1) d) \<and>
         grossMargin r =
           js_sub (js_sub (js_sub (netRevenue r) (COGS st))
                          (js_mul (netRevenue r) (designerRoyaltyPercent st)))
                  (js_mul (netRevenue r) c) \<and>
         profit r = grossMargin r \<and>
         isProfitable r = js_gt (profit r) (Fin 0) \<and>
         (js_gt (COGS st) (Fin 0) \<longrightarrow>
            roi r = js_mul (js_div (profit r) (COGS st)) (Fin 100)) \<and>
         (COGS st = Fin 0 \<longrightarrow> roi r = Fin 0)"
    if "i < length DEFAULT_SCENARIOS" for i
    unfolding scenarios_nth [OF that] scenarioResult_def
    by (simp add: Let_def currentDiscount_lookup)
  from scenarios_ids len each show ?thesis
    by blast
qed

text \<open>
  The theorem on the default state with the override table replaced by two entries for
  \<open>retail\<close>, in this order: 0.40 and 0.10. The result at position 3 is \<open>retail\<close> with
  the discount 0.40 of the first entry; the result at position 0 is \<open>direct\<close> with its
  default discount 0.
\<close>

theorem scenarios_spec_witness:
  "(3::nat) < length DEFAULT_SCENARIOS \<and>
   js_gt (COGS (INITIAL_STATE\<lparr>customScenarios :=
            [\<lparr>cfg_id = ''retail'', cfg_discountPercent = Fin 0.40\<rparr>,
             \<lparr>cfg_id = ''retail'', cfg_discountPercent = Fin 0.10\<rparr>]\<rparr>)) (Fin 0) \<and>
   sc_id (scenarios (INITIAL_STATE\<lparr>customScenarios :=
            [\<lparr>cfg_id = ''retail'', cfg_discountPercent = Fin 0.40\<rparr>,
             \<lparr>cfg_id = ''retail'', cfg_discountPercent = Fin 0.10\<rparr>]\<rparr>) ! 3) = ''retail'' \<and>
   discountPercent (scenarios (INITIAL_STATE\<lparr>customScenarios :=
            [\<lparr>cfg_id = ''retail'', cfg_discountPercent = Fin 0.40\<rparr>,
             \<lparr>cfg_id = ''retail'', cfg_discountPercent = Fin 0.10\<rparr>]\<rparr>) ! 3) = Fin 0.40 \<and>
   netRevenue (scenarios (INITIAL_STATE\<lparr>customScenarios :=
            [\<lparr>cfg_id = ''retail'', cfg_discountPercent = Fin 0.40\<rparr>,
             \<lparr>cfg_id = ''retail'', cfg_discountPercent = Fin 0.10\<rparr>]\<rparr>) ! 3) = Fin 51 \<and>
   discountPercent (scenarios (INITIAL_STATE\<lparr>customScenarios :=
            [\<lparr>cfg_id = ''retail'', cfg_discountPercent = Fin 0.40\<rparr>,
             \<lparr>cfg_id = ''retail'', cfg_discountPercent = Fin 0.10\<rparr>]\<rparr>) ! 0) = Fin 0 \<and>
   netRevenue (scenarios (INITIAL_STATE\<lparr>customScenarios :=
            [\<lparr>cfg_id = ''retail'', cfg_discountPercent = Fin 0.40\<rparr>,
             \<lparr>cfg_id = ''retail'', cfg_discountPercent = Fin 0.10\<rparr>]\<rparr>) ! 0) = Fin 85"
proof -
  let ?st = "INITIAL_STATE\<lparr>customScenarios :=
            [\<lparr>cfg_id = ''retail'', cfg_discountPercent = Fin 0.40\<rparr>,
             \<lparr>cfg_id = ''retail'', cfg_discountPercent = Fin 0.10\<rparr>]\<rparr>"
  have n3: "(3::nat) < length DEFAULT_SCENARIOS" and n0: "(0::nat) < length DEFAULT_SCENARIOS"
    by (simp_all add: DEFAULT_SCENARIOS_def)
  have cogs: "js_gt (COGS ?st) (Fin 0)"
    by code_simp
  have tbl: "customScenarios ?st =
            [\<lparr>cfg_id = ''retail'', cfg_discountPercent = Fin 0.40\<rparr>,
             \<lparr>cfg_id = ''retail'', cfg_discountPercent = Fin 0.10\<rparr>]"
    and price: "publicPrice INITIAL_STATE = Fin 85"
    by (simp_all add: INITIAL_STATE_def)
  have S3: "DEFAULT_SCENARIOS ! 3 =
     \<lparr>sc_id = ''retail'', sc_name = ''Retail Store'', discountPercent = Fin 0.50,
      commissionPercent = Fin 0, description = ''Standard wholesale''\<rparr>"
    and S0: "DEFAULT_SCENARIOS ! 0 =
     \<lparr>sc_id = ''direct'', sc_name = ''Direct Sale'', discountPercent = Fin 0,
      commissionPercent = Fin 0, description = ''Direct to consumer (Website)''\<rparr>"
    by (simp_all add: DEFAULT_SCENARIOS_def)
  from scenarios_spec [of ?st, THEN conjunct2, THEN conjunct2, THEN spec, of 3, THEN mp, OF n3]
  have r3: "sc_id (scenarios ?st ! 3) = ''retail'' \<and>
            discountPercent (scenarios ?st ! 3) = Fin 0.40 \<and>
            netRevenue (scenarios ?st ! 3) = Fin 51"
    by (simp add: Let_def tbl price S3 js_sub_def)
  from scenarios_spec [of ?st, THEN conjunct2, THEN conjunct2, THEN spec, of 0, THEN mp, OF n0]
  have r0: "discountPercent (scenarios ?st ! 0) = Fin 0 \<and>
            netRevenue (scenarios ?st ! 0) = Fin 85"
    by (simp add: Let_def tbl price S0 js_sub_def)
  from n3 cogs r3 r0 show ?thesis
    by simp
qed

subsection \<open>Break-even\<close>

lemma scenarioResult_breakEven:
  "breakEvenUnits (scenarioResult st S) =
     (if js_gt (grossMargin (scenarioResult st S)) (Fin 0)
      then js_ceil (js_div (fixedMonthlyExpenses st) (grossMargin (scenarioResult st S)))
      else PInf)"
  by (simp add: scenarioResult_def Let_def)

text \<open>
  Claim C4. For every state and every scenario result: when grossMargin <= 0 the
  break-even is the sentinel \<open>Infinity\<close>, and when grossMargin > 0 it is
  ceil(fixedMonthlyExpenses / grossMargin). The sentinel is a value of the number type
  that is not finite, is not NaN, and differs from every integer; computing it raises
  nothing, the scenario engine having no failing branch.
\<close>

theorem breakEvenUnits_spec:
  "(\<forall>r\<in>set (scenarios st).
      (js_le (grossMargin r) (Fin 0) \<longrightarrow> breakEvenUnits r = PInf) \<and>
      (js_gt (grossMargin r) (Fin 0) \<longrightarrow>
         breakEvenUnits r = js_ceil (js_div (fixedMonthlyExpenses st) (grossMargin r)))) \<and>
   \<not> is_finite PInf \<and> \<not> js_isNaN PInf \<and> (\<forall>n::int. PInf \<noteq> Fin (of_int n))"
proof -
  have "(js_le (grossMargin r) (Fin 0) \<longrightarrow> breakEvenUnits r = PInf) \<and>
      (js_gt (grossMargin r) (Fin 0) \<longrightarrow>
         breakEvenUnits r = js_ceil (js_div (fixedMonthlyExpenses st) (grossMargin r)))"
    if "r \<in> set (scenarios st)" for r
  proof -
    from that obtain S where "r = scenarioResult st S"
      unfolding scenarios_def set_map by blast
    then show ?thesis
      by (simp add: scenarioResult_breakEven js_le_def)
  qed
  then show ?thesis
    by (simp add: is_finite_def js_isNaN_def)
qed

text \<open>
  The theorem on the default state, where \<open>retail\<close> has the margin 21.3 and breaks even
  at 118 units, and on the default state with the price lowered to 20, where \<open>direct\<close>
  has the margin 20 - 19.075 - 1 = -0.075 and never breaks even.
\<close>

theorem breakEvenUnits_spec_witness:
  "scenarios INITIAL_STATE ! 3 \<in> set (scenarios INITIAL_STATE) \<and>
   grossMargin (scenarios INITIAL_STATE ! 3) = Fin 21.3 \<and>
   js_gt (grossMargin (scenarios INITIAL_STATE ! 3)) (Fin 0) \<and>
   breakEvenUnits (scenarios INITIAL_STATE ! 3) = Fin 118 \<and>
   scenarios (INITIAL_STATE\<lparr>publicPrice := Fin 20\<rparr>) ! 0
     \<in> set (scenarios (INITIAL_STATE\<lparr>publicPrice := Fin 20\<rparr>)) \<and>
   grossMargin (scenarios (INITIAL_STATE\<lparr>publicPrice := Fin 20\<rparr>) ! 0) = Fin (- 0.075) \<and>
   js_le (grossMargin (scenarios (INITIAL_STATE\<lparr>publicPrice := Fin 20\<rparr>) ! 0)) (Fin 0) \<and>
   breakEvenUnits (scenarios (INITIAL_STATE\<lparr>publicPrice := Fin 20\<rparr>) ! 0) = PInf"
proof -
  let ?low = "INITIAL_STATE\<lparr>publicPrice := Fin 20\<rparr>"
  have m3: "scenarios INITIAL_STATE ! 3 \<in> set (scenarios INITIAL_STATE)"
    and m0: "scenarios ?low ! 0 \<in> set (scenarios ?low)"
    by (simp_all add: scenarios_def DEFAULT_SCENARIOS_def)
  have g3: "grossMargin (scenarios INITIAL_STATE ! 3) = Fin 21.3"
    by code_simp
  have g0: "grossMargin (scenarios ?low ! 0) = Fin (- 0.075)"
    by code_simp
  have fixed: "fixedMonthlyExpenses INITIAL_STATE = Fin 2500"
    by (simp add: INITIAL_STATE_def)
  from breakEvenUnits_spec [of INITIAL_STATE] m3 g3 fixed
  have b3: "breakEvenUnits (scenarios INITIAL_STATE ! 3) = Fin 118"
    by (auto simp: ceiling_eq_iff)
  from breakEvenUnits_spec [of ?low] m0 g0
  have b0: "breakEvenUnits (scenarios ?low ! 0) = PInf"
    by (auto simp: js_le_def)
  from m3 m0 g3 g0 b3 b0 show ?thesis
    by (simp add: js_le_def)
qed

end
